theory Spec2Isabelle
  imports Complex_Main
begin

section \<open>The provider contract of \<^verbatim>\<open>src/ell/provider.py\<close>\<close>

text \<open>
  The module holds one abstract class, \<^verbatim>\<open>Provider\<close>, and three module-level helpers:
  \<^verbatim>\<open>_call_params\<close>, \<^verbatim>\<open>_validate_provider_call_params\<close> and
  \<^verbatim>\<open>_validate_messages_are_tracked\<close>. The embedding keeps their names; a leading
  underscore is dropped because an identifier of the logic starts with a letter.
\<close>

subsection \<open>Python values and classes\<close>

text \<open>
  The classes the embedding distinguishes. \<^verbatim>\<open>bool\<close> is a subclass of \<^verbatim>\<open>int\<close>, and every
  class is a subclass of \<^verbatim>\<open>object\<close>.
\<close>

datatype pytype =
  TObject | TNoneType | TBool | TInt | TFloat | TStr | TList | TDict | TDictKeys

text \<open>
  Values. A float is carried as the rational its literal denotes: the module never computes
  with one. \<open>VDictKeys\<close> is the view that \<^verbatim>\<open>dict.keys()\<close> returns. \<open>VRef\<close> is a
  reference to an object of any other class; the object store (see \<open>objects\<close> below) says
  which of them can be called.
\<close>

datatype pyval =
    VNone
  | VBool bool
  | VInt int
  | VFloat rat
  | VStr string
  | VList "pyval list"
  | VDict "(string \<times> pyval) list"
  | VDictKeys "string list"
  | VRef nat

type_synonym pydict = "(string \<times> pyval) list"

fun type_of :: "pyval \<Rightarrow> pytype" where
  "type_of VNone = TNoneType"
| "type_of (VBool b) = TBool"
| "type_of (VInt i) = TInt"
| "type_of (VFloat r) = TFloat"
| "type_of (VStr s) = TStr"
| "type_of (VList xs) = TList"
| "type_of (VDict d) = TDict"
| "type_of (VDictKeys ks) = TDictKeys"
| "type_of (VRef r) = TObject"

definition issubclass :: "pytype \<Rightarrow> pytype \<Rightarrow> bool" where
  "issubclass a b = (a = b \<or> b = TObject \<or> (a = TBool \<and> b = TInt))"

definition isinstance :: "pyval \<Rightarrow> pytype \<Rightarrow> bool" where
  "isinstance v T = issubclass (type_of v) T"

text \<open>
  Hashing: lists, dicts and dict views define no hash, so \<^verbatim>\<open>hash\<close> raises
  \<^verbatim>\<open>TypeError: unhashable type\<close> on them.
\<close>

fun hashable :: "pyval \<Rightarrow> bool" where
  "hashable (VList xs) = False"
| "hashable (VDict d) = False"
| "hashable (VDictKeys ks) = False"
| "hashable v = True"

subsection \<open>Signatures: \<^verbatim>\<open>inspect.Parameter\<close>\<close>

datatype param_kind =
  POSITIONAL_ONLY | POSITIONAL_OR_KEYWORD | VAR_POSITIONAL | KEYWORD_ONLY | VAR_KEYWORD

text \<open>
  One entry of \<^verbatim>\<open>inspect.signature(f).parameters\<close>. \<open>None\<close> stands for the sentinel
  \<^verbatim>\<open>Parameter.empty\<close>, in \<open>p_default\<close> and in \<open>p_annotation\<close>. An annotation, when
  present, is a class: that is what \<^verbatim>\<open>isinstance\<close> accepts as its second argument.
\<close>

record parameter =
  p_name :: string
  p_kind :: param_kind
  p_default :: "pyval option"
  p_annotation :: "pytype option"

subsection \<open>Messages\<close>

text \<open>
  Modelled from the spec: the types \<^verbatim>\<open>Message\<close> and \<^verbatim>\<open>_lstr\<close> are imported from
  \<^verbatim>\<open>ell.types\<close>, which is not part of the sources at hand. The spec describes a message as a
  role and a \<^verbatim>\<open>text\<close> projection, and \<^verbatim>\<open>_lstr\<close> as a provenance-tagged string whose
  recorded origin can be read back; the attribute the code reads is \<^verbatim>\<open>_or\<close>, and the
  failure message of line 132 reads \<^verbatim>\<open>origin_id\<close>. A text is therefore either a plain
  \<^verbatim>\<open>str\<close> or an \<^verbatim>\<open>_lstr\<close> carrying its content and its origin, readable under both
  names.
\<close>

datatype text_proj = Str string | Lstr string string

record message =
  m_role :: string
  m_text :: text_proj

subsection \<open>Exceptions\<close>

text \<open>
  Every failure of the module itself is an \<^verbatim>\<open>assert\<close>; the constructors of \<open>violation\<close>
  name the assertion that failed, under the names the spec gives them. The two assertions of
  \<^verbatim>\<open>_validate_messages_are_tracked\<close> are both \<open>UntrackedMessage\<close>, told apart by a tag.
\<close>

datatype untracked = NotLstr | OriginMismatch

datatype violation =
    DisallowedParam pydict
  | MissingRequiredParam string
  | UnexpectedParam string
  | TypeMismatch string pytype
  | UntrackedMessage untracked message

text \<open>
  The \<^verbatim>\<open>TypeError\<close>s of the language itself that the module can run into.
\<close>

datatype type_error =
    Unhashable pytype
  | NotCallable pytype
  | MissingArgument string
  | TooManyPositional nat nat
  | UnexpectedKeyword string
  | PositionalOnlyAsKeyword string
  | MultipleValues string

text \<open>
  \<open>Raised\<close> is any other exception, raised by a provider's own methods or by the backend.
\<close>

datatype error =
    AssertionError violation
  | TypeError type_error
  | KeyError string
  | AttributeError string
  | Raised string

text \<open>
  \<^verbatim>\<open>assert cond, msg\<close>. The statement is compiled away when the interpreter runs with
  \<^verbatim>\<open>-O\<close> (\<^verbatim>\<open>__debug__\<close> is false): then the condition is not even evaluated. The flag
  \<open>dbg\<close> is \<^verbatim>\<open>__debug__\<close>; it is \<open>True\<close> unless optimisation was asked for. Evaluating the
  condition can itself raise.
\<close>

definition py_assert :: "bool \<Rightarrow> error + bool \<Rightarrow> violation \<Rightarrow> error + unit" where
  "py_assert dbg cond v =
     (if dbg then
        (case cond of
           Inl e \<Rightarrow> Inl e
         | Inr b \<Rightarrow> if b then Inr () else Inl (AssertionError v))
      else Inr ())"

subsection \<open>\<^verbatim>\<open>_validate_provider_call_params\<close>\<close>

text \<open>
  The dict comprehension of lines 111 to 114: the parameters with no default that are not the
  \<^verbatim>\<open>**kwargs\<close> sink, in signature order.
\<close>

definition required_params :: "parameter list \<Rightarrow> parameter list" where
  "required_params provider_call_params =
     filter (\<lambda>param. p_default param = None \<and> p_kind param \<noteq> VAR_KEYWORD) provider_call_params"

text \<open>The first loop, lines 116 and 117.\<close>

fun check_required :: "bool \<Rightarrow> pydict \<Rightarrow> parameter list \<Rightarrow> error + unit" where
  "check_required dbg api_call_params [] = Inr ()"
| "check_required dbg api_call_params (p # ps) =
     (case py_assert dbg (Inr (p_name p \<in> set (map fst api_call_params)))
             (MissingRequiredParam (p_name p)) of
        Inl e \<Rightarrow> Inl e
      | Inr _ \<Rightarrow> check_required dbg api_call_params ps)"

text \<open>
  \<^verbatim>\<open>provider_call_params[param_name]\<close>: a missing key raises \<^verbatim>\<open>KeyError\<close>.
\<close>

fun lookup_param :: "parameter list \<Rightarrow> string \<Rightarrow> error + parameter" where
  "lookup_param [] n = Inl (KeyError n)"
| "lookup_param (p # ps) n = (if p_name p = n then Inr p else lookup_param ps n)"

text \<open>
  The second loop, lines 119 to 124, over the items of the dict in insertion order: the
  membership assertion, then the annotation lookup, then the type assertion when the
  annotation is not empty.
\<close>

fun check_items :: "bool \<Rightarrow> parameter list \<Rightarrow> pydict \<Rightarrow> error + unit" where
  "check_items dbg provider_call_params [] = Inr ()"
| "check_items dbg provider_call_params ((param_name, param_value) # rest) =
     (case py_assert dbg (Inr (param_name \<in> set (map p_name provider_call_params)))
             (UnexpectedParam param_name) of
        Inl e \<Rightarrow> Inl e
      | Inr _ \<Rightarrow>
         (case lookup_param provider_call_params param_name of
            Inl e \<Rightarrow> Inl e
          | Inr p \<Rightarrow>
             (case p_annotation p of
                None \<Rightarrow> check_items dbg provider_call_params rest
              | Some param_type \<Rightarrow>
                 (case py_assert dbg (Inr (isinstance param_value param_type))
                         (TypeMismatch param_name param_type) of
                    Inl e \<Rightarrow> Inl e
                  | Inr _ \<Rightarrow> check_items dbg provider_call_params rest))))"

text \<open>
  The body of \<^verbatim>\<open>_validate_provider_call_params\<close> once \<^verbatim>\<open>_call_params(call)\<close> has
  returned the signature.
\<close>

definition validate_against :: "bool \<Rightarrow> pydict \<Rightarrow> parameter list \<Rightarrow> error + unit" where
  "validate_against dbg api_call_params provider_call_params =
     (case check_required dbg api_call_params (required_params provider_call_params) of
        Inl e \<Rightarrow> Inl e
      | Inr _ \<Rightarrow> check_items dbg provider_call_params api_call_params)"

subsection \<open>Callables and \<^verbatim>\<open>_call_params\<close>\<close>

text \<open>
  A callable object: the signature that \<^verbatim>\<open>inspect.signature\<close> reads, and what its body
  returns or raises once the arguments are bound to the parameters (a dict from parameter
  name to value). The object store maps a reference to the callable it denotes, if it is one.
\<close>

record callable =
  c_signature :: "parameter list"
  c_body :: "pydict \<Rightarrow> error + pyval"

type_synonym objects = "nat \<Rightarrow> callable option"

text \<open>
  \<^verbatim>\<open>_call_params\<close>, lines 104 to 106. The \<^verbatim>\<open>lru_cache\<close> wrapper hashes its argument
  before anything else; \<^verbatim>\<open>inspect.signature\<close> raises \<^verbatim>\<open>TypeError\<close> on an object that
  is not callable. The cache itself changes no result and is left out.
\<close>

definition call_params :: "objects \<Rightarrow> pyval \<Rightarrow> error + parameter list" where
  "call_params H call =
     (if \<not> hashable call then Inl (TypeError (Unhashable (type_of call)))
      else
        (case call of
           VRef r \<Rightarrow>
             (case H r of
                Some c \<Rightarrow> Inr (c_signature c)
              | None \<Rightarrow> Inl (TypeError (NotCallable (type_of call))))
         | _ \<Rightarrow> Inl (TypeError (NotCallable (type_of call)))))"

definition validate_provider_call_params ::
  "bool \<Rightarrow> objects \<Rightarrow> pydict \<Rightarrow> pyval \<Rightarrow> error + unit" where
  "validate_provider_call_params dbg H api_call_params call =
     (case call_params H call of
        Inl e \<Rightarrow> Inl e
      | Inr provider_call_params \<Rightarrow> validate_against dbg api_call_params provider_call_params)"

subsection \<open>\<^verbatim>\<open>_validate_messages_are_tracked\<close>\<close>

fun is_lstr :: "text_proj \<Rightarrow> bool" where
  "is_lstr (Lstr s origin) = True"
| "is_lstr (Str s) = False"

text \<open>\<^verbatim>\<open>message.text._or\<close>: a plain \<^verbatim>\<open>str\<close> has no such attribute.\<close>

fun get_or :: "text_proj \<Rightarrow> error + string" where
  "get_or (Lstr s origin) = Inr origin"
| "get_or (Str s) = Inl (AttributeError ''_or'')"

text \<open>The loop of lines 130 to 132: two assertions for each message, in order.\<close>

fun check_tracked :: "bool \<Rightarrow> string \<Rightarrow> message list \<Rightarrow> error + unit" where
  "check_tracked dbg origin_id [] = Inr ()"
| "check_tracked dbg origin_id (m # ms) =
     (case py_assert dbg (Inr (is_lstr (m_text m))) (UntrackedMessage NotLstr m) of
        Inl e \<Rightarrow> Inl e
      | Inr _ \<Rightarrow>
         (case py_assert dbg
                 (case get_or (m_text m) of Inl e \<Rightarrow> Inl e | Inr origin \<Rightarrow> Inr (origin = origin_id))
                 (UntrackedMessage OriginMismatch m) of
            Inl e \<Rightarrow> Inl e
          | Inr _ \<Rightarrow> check_tracked dbg origin_id ms))"

definition validate_messages_are_tracked ::
  "bool \<Rightarrow> message list \<Rightarrow> string option \<Rightarrow> error + unit" where
  "validate_messages_are_tracked dbg messages origin_id =
     (case origin_id of
        None \<Rightarrow> Inr ()
      | Some oid \<Rightarrow> check_tracked dbg oid messages)"

subsection \<open>Calling a callable\<close>

text \<open>
  Line 91 calls objects, so the embedding needs the call protocol of the language: the
  arguments are bound to the parameters of the signature, and only then the body runs.
  Positional arguments fill the positional parameters from the left; a keyword argument goes
  to the parameter of its name, or to the \<^verbatim>\<open>**kwargs\<close> sink; what is left unbound takes its
  default, and a parameter with none raises \<^verbatim>\<open>TypeError\<close>. The tuple bound to
  \<^verbatim>\<open>*args\<close> is carried as a list. Errors come in the interpreter's order: keywords, then
  surplus positional arguments, then the first parameter left without a value.
\<close>

definition takes_positional :: "parameter \<Rightarrow> bool" where
  "takes_positional p = (p_kind p = POSITIONAL_ONLY \<or> p_kind p = POSITIONAL_OR_KEYWORD)"

definition accepts_keyword :: "parameter \<Rightarrow> bool" where
  "accepts_keyword p = (p_kind p = POSITIONAL_OR_KEYWORD \<or> p_kind p = KEYWORD_ONLY)"

definition has_kind :: "param_kind \<Rightarrow> parameter list \<Rightarrow> bool" where
  "has_kind k sig = list_ex (\<lambda>p. p_kind p = k) sig"

fun bind_keywords :: "parameter list \<Rightarrow> pydict \<Rightarrow> pydict \<Rightarrow> pydict \<Rightarrow> error + pydict \<times> pydict" where
  "bind_keywords sig bound extra [] = Inr (bound, extra)"
| "bind_keywords sig bound extra ((k, v) # kwargs) =
     (if list_ex (\<lambda>p. p_name p = k \<and> accepts_keyword p) sig then
        (if k \<in> set (map fst bound) then Inl (TypeError (MultipleValues k))
         else bind_keywords sig (bound @ [(k, v)]) extra kwargs)
      else if has_kind VAR_KEYWORD sig then bind_keywords sig bound (extra @ [(k, v)]) kwargs
      else if list_ex (\<lambda>p. p_name p = k \<and> p_kind p = POSITIONAL_ONLY) sig then
        Inl (TypeError (PositionalOnlyAsKeyword k))
      else Inl (TypeError (UnexpectedKeyword k)))"

definition param_value :: "parameter \<Rightarrow> pydict \<Rightarrow> pyval list \<Rightarrow> pydict \<Rightarrow> error + pyval" where
  "param_value p bound star extra =
     (case p_kind p of
        VAR_POSITIONAL \<Rightarrow> Inr (VList star)
      | VAR_KEYWORD \<Rightarrow> Inr (VDict extra)
      | _ \<Rightarrow>
         (case map_of bound (p_name p) of
            Some v \<Rightarrow> Inr v
          | None \<Rightarrow>
             (case p_default p of
                Some d \<Rightarrow> Inr d
              | None \<Rightarrow> Inl (TypeError (MissingArgument (p_name p))))))"

fun fill_params :: "parameter list \<Rightarrow> pydict \<Rightarrow> pyval list \<Rightarrow> pydict \<Rightarrow> error + pydict" where
  "fill_params [] bound star extra = Inr []"
| "fill_params (p # ps) bound star extra =
     (case param_value p bound star extra of
        Inl e \<Rightarrow> Inl e
      | Inr v \<Rightarrow>
         (case fill_params ps bound star extra of
            Inl e \<Rightarrow> Inl e
          | Inr rest \<Rightarrow> Inr ((p_name p, v) # rest)))"

definition py_bind :: "parameter list \<Rightarrow> pyval list \<Rightarrow> pydict \<Rightarrow> error + pydict" where
  "py_bind sig args kwargs =
     (let pos = filter takes_positional sig;
          star = drop (length pos) args
      in case bind_keywords sig (zip (map p_name pos) args) [] kwargs of
           Inl e \<Rightarrow> Inl e
         | Inr (bound, extra) \<Rightarrow>
             if star \<noteq> [] \<and> \<not> has_kind VAR_POSITIONAL sig
             then Inl (TypeError (TooManyPositional (length pos) (length args)))
             else fill_params sig bound star extra)"

text \<open>\<^verbatim>\<open>f(*args, **kwargs)\<close>: calling what is not callable raises \<^verbatim>\<open>TypeError\<close>.\<close>

definition py_call :: "objects \<Rightarrow> pyval \<Rightarrow> pyval list \<Rightarrow> pydict \<Rightarrow> error + pyval" where
  "py_call H f args kwargs =
     (case f of
        VRef r \<Rightarrow>
          (case H r of
             Some c \<Rightarrow>
               (case py_bind (c_signature c) args kwargs of
                  Inl e \<Rightarrow> Inl e
                | Inr bound \<Rightarrow> c_body c bound)
           | None \<Rightarrow> Inl (TypeError (NotCallable (type_of f))))
      | _ \<Rightarrow> Inl (TypeError (NotCallable (type_of f))))"

subsection \<open>\<^verbatim>\<open>EllCallParams\<close> and \<^verbatim>\<open>Provider\<close>\<close>

text \<open>The pydantic model of lines 18 to 26; the client and the tools are opaque values.\<close>

record EllCallParams =
  model :: string
  messages :: "message list"
  client :: pyval
  tools :: "pyval list option"
  api_params :: pydict

text \<open>
  A provider object: the three abstract methods, which a subclass implements and which can
  raise, and \<^verbatim>\<open>disallowed_api_params\<close>, which a subclass may override. The method returns a
  \<^verbatim>\<open>FrozenSet[str]\<close>; the base class's set is \<open>Provider_disallowed_api_params\<close>.
\<close>

record provider =
  provider_call_function :: "pydict option \<Rightarrow> error + pyval"
  disallowed_api_params :: "string set"
  translate_to_provider :: "EllCallParams \<Rightarrow> error + pydict"
  translate_from_provider ::
    "pyval \<Rightarrow> EllCallParams \<Rightarrow> string option \<Rightarrow> pyval option \<Rightarrow> error + message list \<times> pydict"

definition Provider_disallowed_api_params :: "string set" where
  "Provider_disallowed_api_params = {''messages'', ''tools'', ''model''}"

text \<open>
  \<^verbatim>\<open>available_api_params\<close>, lines 58 to 60: \<^verbatim>\<open>frozenset(params.keys())\<close> iterates the
  keys, and the difference of two frozensets is a frozenset.
\<close>

definition Provider_available_api_params ::
  "objects \<Rightarrow> provider \<Rightarrow> pydict option \<Rightarrow> error + string set" where
  "Provider_available_api_params H self hint =
     (case provider_call_function self hint of
        Inl e \<Rightarrow> Inl e
      | Inr f \<Rightarrow>
         (case call_params H f of
            Inl e \<Rightarrow> Inl e
          | Inr params \<Rightarrow> Inr (set (map p_name params) - disallowed_api_params self)))"

text \<open>
  \<^verbatim>\<open>x in s\<close> for a frozenset of strings \<open>s\<close>: the set hashes \<open>x\<close> first, so an
  unhashable \<open>x\<close> raises; a hashable one is a member when it is a string of the set.
\<close>

definition py_in_frozenset :: "pyval \<Rightarrow> string set \<Rightarrow> error + bool" where
  "py_in_frozenset x s =
     (if \<not> hashable x then Inl (TypeError (Unhashable (type_of x)))
      else Inr (case x of VStr k \<Rightarrow> k \<in> s | _ \<Rightarrow> False))"

definition py_not_in_frozenset :: "pyval \<Rightarrow> string set \<Rightarrow> error + bool" where
  "py_not_in_frozenset x s =
     (case py_in_frozenset x s of Inl e \<Rightarrow> Inl e | Inr b \<Rightarrow> Inr (\<not> b))"

text \<open>
  Line 82: the left operand of \<^verbatim>\<open>not in\<close> is the keys view of \<^verbatim>\<open>api_params\<close> itself,
  one value, and the right operand is the frozenset of disallowed names.
\<close>

definition check_disallowed :: "bool \<Rightarrow> provider \<Rightarrow> EllCallParams \<Rightarrow> error + unit" where
  "check_disallowed dbg self ell_call =
     py_assert dbg
       (py_not_in_frozenset (VDictKeys (map fst (api_params ell_call))) (disallowed_api_params self))
       (DisallowedParam (api_params ell_call))"

text \<open>
  What the outside world sees of a call: the invocations made, in order, each with the
  callee, its positional arguments and its keyword arguments.
\<close>

datatype event = Invoked pyval "pyval list" pydict

text \<open>
  Line 91, \<^verbatim>\<open>call(final_api_call_params)(**final_api_call_params)\<close>: the callable that
  \<^verbatim>\<open>provider_call_function\<close> returned is called with the dict as its one positional
  argument, and what that call returns is called with the dict's items as keywords.
\<close>

definition invoke_backend :: "objects \<Rightarrow> pyval \<Rightarrow> pydict \<Rightarrow> (error + pyval) \<times> event list" where
  "invoke_backend H f final_api_call_params =
     (case py_call H f [VDict final_api_call_params] [] of
        Inl e \<Rightarrow> (Inl e, [Invoked f [VDict final_api_call_params] []])
      | Inr inner \<Rightarrow>
          (py_call H inner [] final_api_call_params,
           [Invoked f [VDict final_api_call_params] [], Invoked inner [] final_api_call_params]))"

text \<open>
  \<^verbatim>\<open>Provider.call\<close>, lines 80 to 97. There is no \<^verbatim>\<open>try\<close>: the first exception ends the
  call. The result comes with the invocations made up to that point.
\<close>

definition Provider_call ::
  "bool \<Rightarrow> objects \<Rightarrow> provider \<Rightarrow> EllCallParams \<Rightarrow> string option \<Rightarrow> pyval option \<Rightarrow>
     (error + message list \<times> pydict \<times> pydict) \<times> event list" where
  "Provider_call dbg H self ell_call origin_id logger =
     (case check_disallowed dbg self ell_call of
        Inl e \<Rightarrow> (Inl e, [])
      | Inr _ \<Rightarrow>
     (case translate_to_provider self ell_call of
        Inl e \<Rightarrow> (Inl e, [])
      | Inr final_api_call_params \<Rightarrow>
     (case provider_call_function self (Some final_api_call_params) of
        Inl e \<Rightarrow> (Inl e, [])
      | Inr f \<Rightarrow>
     (case validate_provider_call_params dbg H final_api_call_params f of
        Inl e \<Rightarrow> (Inl e, [])
      | Inr _ \<Rightarrow>
     (case invoke_backend H f final_api_call_params of
        (Inl e, evs) \<Rightarrow> (Inl e, evs)
      | (Inr provider_resp, evs) \<Rightarrow>
     (case translate_from_provider self provider_resp ell_call origin_id logger of
        Inl e \<Rightarrow> (Inl e, evs)
      | Inr (msgs, metadata) \<Rightarrow>
     (case validate_messages_are_tracked dbg msgs origin_id of
        Inl e \<Rightarrow> (Inl e, evs)
      | Inr _ \<Rightarrow> (Inr (msgs, final_api_call_params, metadata), evs))))))))"

subsection \<open>Vocabulary of the statements\<close>


subsection \<open>Concrete callables and providers\<close>

text \<open>
  The callables and the provider of the spec's testable properties, used below to run the
  definitions on concrete inputs. \<open>objects_of cs\<close> is the store whose reference \<open>r\<close>
  denotes the \<open>r\<close>-th callable of \<open>cs\<close>.
\<close>

definition objects_of :: "callable list \<Rightarrow> objects" where
  "objects_of cs r = (if r < length cs then Some (cs ! r) else None)"

definition plain_param :: "string \<Rightarrow> pyval option \<Rightarrow> pytype option \<Rightarrow> parameter" where
  "plain_param n d a =
     \<lparr>p_name = n, p_kind = POSITIONAL_OR_KEYWORD, p_default = d, p_annotation = a\<rparr>"


text \<open>\<^verbatim>\<open>def f(a, b, **kwargs): ...\<close>\<close>

definition f_ab_kwargs :: callable where
  "f_ab_kwargs =
     \<lparr>c_signature = [plain_param ''a'' None None, plain_param ''b'' None None,
        \<lparr>p_name = ''kwargs'', p_kind = VAR_KEYWORD, p_default = None, p_annotation = None\<rparr>],
      c_body = (\<lambda>bound. Inr VNone)\<rparr>"


text \<open>\<^verbatim>\<open>def f(a, *args): ...\<close>\<close>

definition f_a_args :: callable where
  "f_a_args =
     \<lparr>c_signature = [plain_param ''a'' None None,
        \<lparr>p_name = ''args'', p_kind = VAR_POSITIONAL, p_default = None, p_annotation = None\<rparr>],
      c_body = (\<lambda>bound. Inr VNone)\<rparr>"

text \<open>
  The stub backend of the spec's scenario, \<^verbatim>\<open>def stub(model, prompt, temperature=0.7)\<close>,
  which answers \<^verbatim>\<open>"hello"\<close>.
\<close>

definition stub_backend :: callable where
  "stub_backend =
     \<lparr>c_signature = [plain_param ''model'' None None, plain_param ''prompt'' None None,
        plain_param ''temperature'' (Some (VFloat (7 / 10))) None],
      c_body = (\<lambda>bound. Inr (VStr ''hello''))\<rparr>"

fun text_content :: "text_proj \<Rightarrow> string" where
  "text_content (Str s) = s"
| "text_content (Lstr s origin) = s"

text \<open>
  The provider of the scenario: the native parameters are the model, the text of the first
  message as the prompt, and the caller's extra parameters; the response becomes one
  assistant message, tagged with the origin when there is one.
\<close>

definition stub_provider :: provider where
  "stub_provider =
     \<lparr>provider_call_function = (\<lambda>hint. Inr (VRef 0)),
      disallowed_api_params = Provider_disallowed_api_params,
      translate_to_provider = (\<lambda>ell_call.
        Inr ([(''model'', VStr (model ell_call)),
              (''prompt'', VStr (case messages ell_call of
                                   [] \<Rightarrow> ''''
                                 | m # ms \<Rightarrow> text_content (m_text m)))]
             @ api_params ell_call)),
      translate_from_provider = (\<lambda>provider_resp ell_call origin_id logger.
        Inr ([\<lparr>m_role = ''assistant'',
                m_text = (case (provider_resp, origin_id) of
                            (VStr s, Some origin) \<Rightarrow> Lstr s origin
                          | (VStr s, None) \<Rightarrow> Str s
                          | _ \<Rightarrow> Str '''')\<rparr>], []))\<rparr>"

definition scenario_call :: EllCallParams where
  "scenario_call =
     \<lparr>model = ''m1'',
      messages = [\<lparr>m_role = ''user'', m_text = Str ''hi''\<rparr>],
      client = VNone,
      tools = None,
      api_params = [(''temperature'', VFloat (2 / 10))]\<rparr>"

text \<open>A backend whose body raises, \<^verbatim>\<open>def failing(prompt): raise ConnectionError\<close>.\<close>

definition failing_backend :: callable where
  "failing_backend =
     \<lparr>c_signature = [plain_param ''prompt'' None None],
      c_body = (\<lambda>bound. Inl (Raised ''ConnectionError''))\<rparr>"

definition failing_provider :: provider where
  "failing_provider =
     stub_provider\<lparr>translate_to_provider := (\<lambda>ell_call. Inr [(''prompt'', VStr ''hi'')])\<rparr>"

section \<open>Properties\<close>

subsection \<open>Auxiliary facts about the parameter validation\<close>

lemma py_assert_True:
  "py_assert True (Inr b) v = (if b then Inr () else Inl (AssertionError v))"
  by (simp add: py_assert_def)

lemma check_required_ok:
  "(check_required True api ps = Inr ()) = (\<forall>p\<in>set ps. p_name p \<in> fst ` set api)"
  by (induction ps) (simp_all add: py_assert_True)

lemma check_required_err:
  "check_required True api ps = Inl e \<Longrightarrow>
     \<exists>p\<in>set ps. p_name p \<notin> fst ` set api \<and> e = AssertionError (MissingRequiredParam (p_name p))"
  by (induction ps) (auto simp: py_assert_True split: if_splits)

lemma check_required_first:
  "p_name p \<notin> fst ` set api \<Longrightarrow> \<forall>q\<in>set ps. p_name q \<in> fst ` set api \<Longrightarrow>
     check_required True api (ps @ p # qs) = Inl (AssertionError (MissingRequiredParam (p_name p)))"
  by (induction ps) (simp_all add: py_assert_True)








lemma validate_against_absent:
  assumes "p \<in> set sig" "p_default p = None" "p_kind p \<noteq> VAR_KEYWORD"
    "p_name p \<notin> fst ` set api"
  shows "\<exists>n. validate_against True api sig = Inl (AssertionError (MissingRequiredParam n))"
proof -
  from assms have "p \<in> set (required_params sig)" by (simp add: required_params_def)
  with assms(4) have "check_required True api (required_params sig) \<noteq> Inr ()"
    by (auto simp: check_required_ok)
  then obtain e where e: "check_required True api (required_params sig) = Inl e"
    by (cases "check_required True api (required_params sig)") auto
  from check_required_err [OF e] e show ?thesis
    by (auto simp: validate_against_def)
qed

lemmas stub_defs =
  objects_of_def plain_param_def stub_backend_def stub_provider_def scenario_call_def

lemmas validate_defs =
  validate_provider_call_params_def call_params_def validate_against_def required_params_def
  py_assert_def isinstance_def issubclass_def

lemmas call_defs =
  Provider_call_def check_disallowed_def py_not_in_frozenset_def py_in_frozenset_def
  invoke_backend_def py_call_def py_bind_def takes_positional_def accepts_keyword_def
  has_kind_def param_value_def validate_messages_are_tracked_def

subsection \<open>The disallowed-parameter check of line 82\<close>


text \<open>
  C1. A call whose extra parameters hold a disallowed key (\<^verbatim>\<open>{"model": "other"}\<close>) should fail
  with \<open>DisallowedParam\<close> before the backend is invoked, and a call whose extra keys are
  disjoint from the disallowed names should pass this first check. The code does neither:
  with \<^verbatim>\<open>api_params = {"model": "other"}\<close> the call ends in
  \<^verbatim>\<open>TypeError: unhashable type: 'dict_keys'\<close>, not in the assertion's failure, and with the
  disjoint \<^verbatim>\<open>{"temperature": 0.2}\<close> the check raises the same error instead of passing.
  (No invocation is made in either case.)
\<close>

theorem call_disallowed_override_raises_type_error:
  "Provider_call True (objects_of [stub_backend]) stub_provider
     (scenario_call\<lparr>api_params := [(''model'', VStr ''other'')]\<rparr>) None None
     = (Inl (TypeError (Unhashable TDictKeys)), []) \<and>
   ''model'' \<in> disallowed_api_params stub_provider \<and>
   check_disallowed True stub_provider scenario_call = Inl (TypeError (Unhashable TDictKeys)) \<and>
   set (map fst (api_params scenario_call)) \<inter> disallowed_api_params stub_provider = {}"
  by (simp add: call_defs validate_defs stub_defs Provider_disallowed_api_params_def)



subsection \<open>The orchestrated call\<close>

text \<open>
  C2. After the validation, the backend function should be invoked once, with the native
  parameters as keywords, its result going to \<^verbatim>\<open>translate_from_provider\<close>; the spec's stub
  scenario should return one assistant message. On the scenario the code fails twice over.
  With assertions on, line 82 raises \<^verbatim>\<open>TypeError\<close> and nothing is invoked. With
  assertions off, line 91 invokes the stub with the whole dict as its one positional
  argument and no keyword, which raises \<^verbatim>\<open>TypeError\<close> for the missing \<^verbatim>\<open>prompt\<close>; yet
  the stub accepts the native parameters as keywords, which is what the validation of line 89
  checked.
\<close>

theorem call_stub_scenario_fails:
  "Provider_call True (objects_of [stub_backend]) stub_provider scenario_call None None
     = (Inl (TypeError (Unhashable TDictKeys)), []) \<and>
   Provider_call False (objects_of [stub_backend]) stub_provider scenario_call None None
     = (Inl (TypeError (MissingArgument ''prompt'')),
        [Invoked (VRef 0)
           [VDict [(''model'', VStr ''m1''), (''prompt'', VStr ''hi''),
                   (''temperature'', VFloat (2 / 10))]] []]) \<and>
   validate_provider_call_params True (objects_of [stub_backend])
     [(''model'', VStr ''m1''), (''prompt'', VStr ''hi''), (''temperature'', VFloat (2 / 10))]
     (VRef 0) = Inr () \<and>
   py_call (objects_of [stub_backend]) (VRef 0) []
     [(''model'', VStr ''m1''), (''prompt'', VStr ''hi''), (''temperature'', VFloat (2 / 10))]
     = Inr (VStr ''hello'')"
  by (simp add: call_defs validate_defs stub_defs)

text \<open>
  C9. When the backend invocation of line 91 raises, \<^verbatim>\<open>Provider.call\<close> ends with exactly
  that exception: it is not caught, retried or turned into an assertion failure. The
  invocations made are those of line 91 up to the one that raised.
\<close>

theorem backend_error_propagates:
  assumes "check_disallowed dbg self ell_call = Inr ()"
    and "translate_to_provider self ell_call = Inr final"
    and "provider_call_function self (Some final) = Inr f"
    and "validate_provider_call_params dbg H final f = Inr ()"
    and "invoke_backend H f final = (Inl e, evs)"
  shows "Provider_call dbg H self ell_call origin_id logger = (Inl e, evs)"
  using assms by (simp add: Provider_call_def)

theorem backend_error_propagates_witness:
  "check_disallowed False failing_provider scenario_call = Inr () \<and>
   translate_to_provider failing_provider scenario_call = Inr [(''prompt'', VStr ''hi'')] \<and>
   provider_call_function failing_provider (Some [(''prompt'', VStr ''hi'')]) = Inr (VRef 0) \<and>
   validate_provider_call_params False (objects_of [failing_backend]) [(''prompt'', VStr ''hi'')]
     (VRef 0) = Inr () \<and>
   invoke_backend (objects_of [failing_backend]) (VRef 0) [(''prompt'', VStr ''hi'')]
     = (Inl (Raised ''ConnectionError''),
        [Invoked (VRef 0) [VDict [(''prompt'', VStr ''hi'')]] []]) \<and>
   Provider_call False (objects_of [failing_backend]) failing_provider scenario_call None None
     = (Inl (Raised ''ConnectionError''),
        [Invoked (VRef 0) [VDict [(''prompt'', VStr ''hi'')]] []])"
proof -
  have h1: "check_disallowed False failing_provider scenario_call = Inr ()"
    by (simp add: check_disallowed_def py_assert_def)
  have h2: "translate_to_provider failing_provider scenario_call = Inr [(''prompt'', VStr ''hi'')]"
    by (simp add: stub_defs failing_backend_def failing_provider_def)
  have h3: "provider_call_function failing_provider (Some [(''prompt'', VStr ''hi'')]) = Inr (VRef 0)"
    by (simp add: stub_defs failing_backend_def failing_provider_def)
  have h4: "validate_provider_call_params False (objects_of [failing_backend])
              [(''prompt'', VStr ''hi'')] (VRef 0) = Inr ()"
    by (simp add: validate_defs stub_defs failing_backend_def failing_provider_def)
  have h5: "invoke_backend (objects_of [failing_backend]) (VRef 0) [(''prompt'', VStr ''hi'')]
              = (Inl (Raised ''ConnectionError''),
                 [Invoked (VRef 0) [VDict [(''prompt'', VStr ''hi'')]] []])"
    by (simp add: call_defs stub_defs failing_backend_def failing_provider_def)
  from backend_error_propagates [OF h1 h2 h3 h4 h5] h1 h2 h3 h4 h5 show ?thesis
    by simp
qed

subsection \<open>Available parameters\<close>

text \<open>
  C8. \<^verbatim>\<open>available_api_params(hint)\<close> is the set of parameter names of the callable that
  \<^verbatim>\<open>provider_call_function(hint)\<close> returns, minus \<^verbatim>\<open>disallowed_api_params()\<close>; so with
  the base class's disallowed set it holds none of \<^verbatim>\<open>model\<close>, \<^verbatim>\<open>messages\<close> and
  \<^verbatim>\<open>tools\<close>, whatever the callable declares.
\<close>

theorem available_api_params_excludes_disallowed:
  "(provider_call_function self hint = Inr f \<and> call_params H f = Inr sig \<longrightarrow>
      Provider_available_api_params H self hint
        = Inr (p_name ` set sig - disallowed_api_params self)) \<and>
   (disallowed_api_params self = Provider_disallowed_api_params \<and>
    Provider_available_api_params H self hint = Inr A \<longrightarrow>
      ''model'' \<notin> A \<and> ''messages'' \<notin> A \<and> ''tools'' \<notin> A)"
  by (auto simp: Provider_available_api_params_def Provider_disallowed_api_params_def
           split: sum.splits)

theorem available_api_params_excludes_disallowed_witness:
  "provider_call_function stub_provider None = Inr (VRef 0) \<and>
   call_params (objects_of [stub_backend]) (VRef 0) = Inr (c_signature stub_backend) \<and>
   ''model'' \<in> p_name ` set (c_signature stub_backend) \<and>
   disallowed_api_params stub_provider = Provider_disallowed_api_params \<and>
   Provider_available_api_params (objects_of [stub_backend]) stub_provider None
     = Inr {''prompt'', ''temperature''} \<and>
   ''model'' \<notin> {''prompt'', ''temperature''}"
proof -
  have h1: "provider_call_function stub_provider None = Inr (VRef 0)"
    by (simp add: stub_defs)
  have h2: "call_params (objects_of [stub_backend]) (VRef 0) = Inr (c_signature stub_backend)"
    by (simp add: call_params_def stub_defs)
  have h3: "disallowed_api_params stub_provider = Provider_disallowed_api_params"
    by (simp add: stub_defs)
  have s: "p_name ` set (c_signature stub_backend) - disallowed_api_params stub_provider
             = {''prompt'', ''temperature''}"
    by (auto simp: stub_defs Provider_disallowed_api_params_def)
  from available_api_params_excludes_disallowed
         [of stub_provider None "VRef 0" "objects_of [stub_backend]" "c_signature stub_backend"
             "{''prompt'', ''temperature''}"]
       h1 h2 h3 s
  show ?thesis by (simp add: stub_defs)
qed

subsection \<open>Validation of the native parameters\<close>



text \<open>
  C3. A name of the native parameters that is not a parameter of the callable should fail
  with \<open>UnexpectedParam\<close>, except when the callable declares a \<^verbatim>\<open>**kwargs\<close> sink. The code
  makes no such exception: for \<^verbatim>\<open>def f(a, b, **kwargs)\<close> and \<^verbatim>\<open>{a: 1, b: 2, c: 3}\<close> the
  assertion of line 120 fails on \<^verbatim>\<open>c\<close>, although the callable accepts the three keywords
  and the comprehension of line 113 does take the sink into account.
\<close>

theorem unexpected_param_despite_kwargs_sink:
  "validate_provider_call_params True (objects_of [f_ab_kwargs])
     [(''a'', VInt 1), (''b'', VInt 2), (''c'', VInt 3)] (VRef 0)
     = Inl (AssertionError (UnexpectedParam ''c'')) \<and>
   has_kind VAR_KEYWORD (c_signature f_ab_kwargs) \<and>
   py_call (objects_of [f_ab_kwargs]) (VRef 0) []
     [(''a'', VInt 1), (''b'', VInt 2), (''c'', VInt 3)] = Inr VNone"
  by (simp add: validate_defs call_defs objects_of_def plain_param_def f_ab_kwargs_def)




text \<open>
  C10. A variadic positional parameter (\<^verbatim>\<open>*args\<close>) has no default and is not the keyword
  sink, so it is among the required parameters, and the validation fails with
  \<open>MissingRequiredParam\<close> unless the native parameters have a key equal to the parameter's
  own name; it is that name which is reported when the parameters before it are present.
  (\<^verbatim>\<open>inspect\<close> gives no variadic parameter a default.)
\<close>

theorem var_positional_is_required:
  assumes "call_params H f = Inr (ps @ p # qs)"
    and "p_kind p = VAR_POSITIONAL"
    and "p_default p = None"
    and "p_name p \<notin> fst ` set api"
  shows "p \<in> set (required_params (ps @ p # qs)) \<and>
         (\<exists>n. validate_provider_call_params True H api f =
                 Inl (AssertionError (MissingRequiredParam n))) \<and>
         ((\<forall>q\<in>set (required_params ps). p_name q \<in> fst ` set api) \<longrightarrow>
            validate_provider_call_params True H api f =
              Inl (AssertionError (MissingRequiredParam (p_name p))))"
proof -
  have r: "required_params (ps @ p # qs) = required_params ps @ p # required_params qs"
    using assms(2,3) by (simp add: required_params_def)
  have v: "validate_provider_call_params True H api f = validate_against True api (ps @ p # qs)"
    using assms(1) by (simp add: validate_provider_call_params_def)
  have "p \<in> set (ps @ p # qs)" "p_kind p \<noteq> VAR_KEYWORD"
    using assms(2) by simp_all
  from validate_against_absent [OF this(1) assms(3) this(2) assms(4)] v
  have e: "\<exists>n. validate_provider_call_params True H api f =
             Inl (AssertionError (MissingRequiredParam n))"
    by simp
  have "validate_provider_call_params True H api f =
          Inl (AssertionError (MissingRequiredParam (p_name p)))"
    if "\<forall>q\<in>set (required_params ps). p_name q \<in> fst ` set api"
    using check_required_first [OF assms(4) that] v r by (simp add: validate_against_def)
  with r e show ?thesis by simp
qed

theorem var_positional_is_required_witness:
  "call_params (objects_of [f_a_args]) (VRef 0)
     = Inr ([plain_param ''a'' None None] @
            \<lparr>p_name = ''args'', p_kind = VAR_POSITIONAL, p_default = None, p_annotation = None\<rparr> # []) \<and>
   ''args'' \<notin> fst ` set [(''a'', VInt 1)] \<and>
   validate_provider_call_params True (objects_of [f_a_args]) [(''a'', VInt 1)] (VRef 0)
     = Inl (AssertionError (MissingRequiredParam ''args'')) \<and>
   validate_provider_call_params True (objects_of [f_a_args])
     [(''a'', VInt 1), (''args'', VList [])] (VRef 0) = Inr ()"
proof -
  have h1: "call_params (objects_of [f_a_args]) (VRef 0)
     = Inr ([plain_param ''a'' None None] @
            \<lparr>p_name = ''args'', p_kind = VAR_POSITIONAL, p_default = None, p_annotation = None\<rparr> # [])"
    by (simp add: call_params_def objects_of_def plain_param_def f_a_args_def)
  have h4: "p_name \<lparr>p_name = ''args'', p_kind = VAR_POSITIONAL, p_default = None,
                    p_annotation = None\<rparr> \<notin> fst ` set [(''a'', VInt 1)]"
    by simp
  have pre: "\<forall>q\<in>set (required_params [plain_param ''a'' None None]).
               p_name q \<in> fst ` set [(''a'', VInt 1)]"
    by (simp add: required_params_def plain_param_def)
  have ok: "validate_provider_call_params True (objects_of [f_a_args])
              [(''a'', VInt 1), (''args'', VList [])] (VRef 0) = Inr ()"
    by (simp add: validate_defs objects_of_def plain_param_def f_a_args_def)
  from var_positional_is_required [OF h1 _ _ h4] pre
  have "validate_provider_call_params True (objects_of [f_a_args]) [(''a'', VInt 1)] (VRef 0)
          = Inl (AssertionError (MissingRequiredParam ''args''))"
    by simp
  with h1 ok show ?thesis by simp
qed

subsection \<open>Validation of the provenance\<close>

lemma check_tracked_ok:
  "(check_tracked True oid ms = Inr ()) = (\<forall>m\<in>set ms. \<exists>s. m_text m = Lstr s oid)"
proof (induction ms)
  case Nil
  then show ?case by simp
next
  case (Cons m ms)
  then show ?case by (cases "m_text m") (auto simp: py_assert_def)
qed

lemma check_tracked_err:
  "check_tracked True oid ms = Inl e \<Longrightarrow>
     \<exists>m\<in>set ms. \<exists>u. e = AssertionError (UntrackedMessage u m) \<and> (\<forall>s. m_text m \<noteq> Lstr s oid)"
proof (induction ms)
  case Nil
  then show ?case by simp
next
  case (Cons m ms)
  then show ?case by (cases "m_text m") (auto simp: py_assert_def split: if_splits)
qed

text \<open>
  C6. \<^verbatim>\<open>_validate_messages_are_tracked\<close> does nothing when no origin is given, whatever the
  messages. With an origin, it fails with \<open>UntrackedMessage\<close>, on a message of the list,
  exactly when some message's text is not an \<^verbatim>\<open>_lstr\<close> whose recorded origin is the given
  one, and succeeds when every message's text carries that origin.
\<close>

theorem messages_tracked_iff:
  "validate_messages_are_tracked dbg msgs None = Inr () \<and>
   ((\<exists>u m. m \<in> set msgs \<and> validate_messages_are_tracked True msgs (Some oid) =
              Inl (AssertionError (UntrackedMessage u m)))
      = (\<exists>m\<in>set msgs. \<forall>s. m_text m \<noteq> Lstr s oid)) \<and>
   ((\<forall>m\<in>set msgs. \<exists>s. m_text m = Lstr s oid) \<longrightarrow>
      validate_messages_are_tracked True msgs (Some oid) = Inr ())"
proof -
  have n: "validate_messages_are_tracked dbg msgs None = Inr ()"
    by (simp add: validate_messages_are_tracked_def)
  have v: "validate_messages_are_tracked True msgs (Some oid) = check_tracked True oid msgs"
    by (simp add: validate_messages_are_tracked_def)
  show ?thesis
  proof (cases "check_tracked True oid msgs")
    case (Inl e)
    from check_tracked_err [OF Inl] check_tracked_ok [of oid msgs] Inl v n
    show ?thesis by auto
  next
    case (Inr x)
    with check_tracked_ok [of oid msgs] v n show ?thesis by auto
  qed
qed

theorem messages_tracked_iff_witness:
  "validate_messages_are_tracked True
     [\<lparr>m_role = ''assistant'', m_text = Lstr ''hello'' ''run-42''\<rparr>] (Some ''run-42'') = Inr () \<and>
   validate_messages_are_tracked True
     [\<lparr>m_role = ''assistant'', m_text = Lstr ''hello'' ''run-42''\<rparr>,
      \<lparr>m_role = ''assistant'', m_text = Str ''bye''\<rparr>] (Some ''run-42'')
     = Inl (AssertionError (UntrackedMessage NotLstr \<lparr>m_role = ''assistant'', m_text = Str ''bye''\<rparr>)) \<and>
   validate_messages_are_tracked True
     [\<lparr>m_role = ''assistant'', m_text = Lstr ''hello'' ''run-7''\<rparr>] (Some ''run-42'')
     = Inl (AssertionError (UntrackedMessage OriginMismatch
              \<lparr>m_role = ''assistant'', m_text = Lstr ''hello'' ''run-7''\<rparr>)) \<and>
   validate_messages_are_tracked True
     [\<lparr>m_role = ''assistant'', m_text = Str ''bye''\<rparr>] None = Inr ()"
proof -
  have a: "\<forall>m\<in>set [\<lparr>m_role = ''assistant'', m_text = Lstr ''hello'' ''run-42''\<rparr>].
             \<exists>s. m_text m = Lstr s ''run-42''"
    by simp
  from messages_tracked_iff
         [of True "[\<lparr>m_role = ''assistant'', m_text = Lstr ''hello'' ''run-42''\<rparr>]" "''run-42''"] a
  have 1: "validate_messages_are_tracked True
     [\<lparr>m_role = ''assistant'', m_text = Lstr ''hello'' ''run-42''\<rparr>] (Some ''run-42'') = Inr ()"
    by blast
  have 2: "validate_messages_are_tracked True
     [\<lparr>m_role = ''assistant'', m_text = Lstr ''hello'' ''run-42''\<rparr>,
      \<lparr>m_role = ''assistant'', m_text = Str ''bye''\<rparr>] (Some ''run-42'')
     = Inl (AssertionError (UntrackedMessage NotLstr \<lparr>m_role = ''assistant'', m_text = Str ''bye''\<rparr>))"
    by (simp add: validate_messages_are_tracked_def py_assert_def)
  have 3: "validate_messages_are_tracked True
     [\<lparr>m_role = ''assistant'', m_text = Lstr ''hello'' ''run-7''\<rparr>] (Some ''run-42'')
     = Inl (AssertionError (UntrackedMessage OriginMismatch
              \<lparr>m_role = ''assistant'', m_text = Lstr ''hello'' ''run-7''\<rparr>))"
    by (simp add: validate_messages_are_tracked_def py_assert_def)
  have 4: "validate_messages_are_tracked True
     [\<lparr>m_role = ''assistant'', m_text = Str ''bye''\<rparr>] None = Inr ()"
    by (simp add: validate_messages_are_tracked_def)
  from 1 2 3 4 show ?thesis by blast
qed

end
